theory Spec2Isabelle
  imports Main
begin

section \<open>Values and events of the session protocol\<close>

text \<open>
  Inbound frames are JSON texts. \<open>jsval\<close> is what \<open>JSON.parse\<close> yields for one, together
  with \<open>undefined\<close>, the value of a property that is absent. Numbers are never inspected by
  the client, so their payload is kept as an integer.
\<close>

datatype jsval =
    JUndefined
  | JNull
  | JBool bool
  | JNum int
  | JStr string
  | JArr "jsval list"
  | JObj "(string \<times> jsval) list"

text \<open>\<open>event.data\<close> of a message event, with the outcome of \<open>JSON.parse\<close> on it.\<close>

datatype inbound = Unparsable | Parsed jsval

text \<open>The one exception the component's own code can raise: a property read on \<open>null\<close>.\<close>

datatype exn = TypeError

datatype conn_status = Disconnected | Connecting | Connected

datatype ready_state = CONNECTING | OPEN | CLOSING | CLOSED

datatype recorder_state = Inactive | Recording | Paused

datatype promise = Pending | Fulfilled | Rejected

text \<open>
  The two outbound frames: \<open>{"type":"audio","data":...}\<close> and \<open>{"type":"stop"}\<close>.
  \<open>JSON.stringify\<close> leaves the \<open>data\<close> key out when its value is \<open>undefined\<close>,
  which is \<open>None\<close> here.
\<close>

datatype frame = AudioFrame "string option" | StopFrame

datatype effect =
    ConsoleLog string "jsval list"
  | ConsoleError string "jsval list"
  | Alert string

text \<open>
  A captured chunk: its \<open>size\<close> and the text \<open>FileReader.readAsDataURL\<close> produces for it
  (the browser's encoder, taken as data).
\<close>

record blob =
  blob_size :: nat
  blob_dataURL :: string

text \<open>
  One \<open>WebSocket\<close> object. Every call of \<open>startRecording\<close> creates exactly one, so the
  promise of \<open>connectWebSocket\<close> (\<open>opened\<close>) and the promise the \<open>async\<close> function
  \<open>startRecording\<close> returns (\<open>started\<close>) are kept with it. \<open>sent\<close> lists the frames
  handed to \<open>ws.send\<close>, oldest first.
\<close>

record socket =
  readyState :: ready_state
  sent :: "frame list"
  opened :: promise
  started :: promise

text \<open>
  One \<open>MediaRecorder\<close> with what its handlers close over: the stream and the socket
  \<open>ws\<close> of the call that created it. \<open>flush_pending\<close> holds between \<open>stop()\<close> and the
  task in which the browser fires the last \<open>dataavailable\<close> and then \<open>stop\<close>.
\<close>

record recorder =
  rec_state :: recorder_state
  rec_stream :: nat
  rec_ws :: nat
  flush_pending :: bool

text \<open>One \<open>FileReader\<close> started by \<open>ondataavailable\<close>, with the socket its handler closes over.\<close>

record reader =
  rd_blob :: blob
  rd_ws :: nat
  rd_done :: bool

text \<open>
  The state of \<open>App\<close> (first five fields; \<open>isRecording_App\<close> is the \<open>isRecording\<close> of
  \<open>App\<close>), the state and refs of \<open>AudioStreamer\<close> (next five), and the browser objects
  the component has created. Objects are referred to by their index in the lists; a stream
  is \<open>True\<close> while its tracks are live. \<open>effects\<close> collects console output and alerts.

  \<open>url_accepted\<close> is given by the environment and never written: whether
  \<open>new WebSocket(wsUrl)\<close> accepts the URL built from \<open>REACT_APP_WS_BASE_URL\<close> (or the
  page's location) and \<open>sessionId\<close>. When it does not, the constructor throws, no socket
  exists, and the promise returned by that call of \<open>startRecording\<close> is kept in
  \<open>socketless_calls\<close> instead of with a socket.
\<close>

record world =
  transcript :: jsval
  partialTranscript :: jsval
  insightReport :: jsval
  isRecording_App :: bool
  connectionStatus :: conn_status
  isRecording :: bool
  isConnecting :: bool
  audioChunksRef :: "blob list"
  websocketRef :: "nat option"
  mediaRecorderRef :: "nat option"
  sockets :: "socket list"
  recorders :: "recorder list"
  streams :: "bool list"
  readers :: "reader list"
  effects :: "effect list"
  url_accepted :: bool
  socketless_calls :: "promise list"

definition init :: world where
  "init = \<lparr> transcript = JStr '''', partialTranscript = JStr '''', insightReport = JNull,
            isRecording_App = False, connectionStatus = Disconnected,
            isRecording = False, isConnecting = False, audioChunksRef = [],
            websocketRef = None, mediaRecorderRef = None,
            sockets = [], recorders = [], streams = [], readers = [], effects = [],
            url_accepted = True, socketless_calls = [] \<rparr>"

section \<open>App.js\<close>

definition console_log :: "string \<Rightarrow> jsval list \<Rightarrow> world \<Rightarrow> world" where
  "console_log msg args w = w\<lparr>effects := effects w @ [ConsoleLog msg args]\<rparr>"

definition console_error :: "string \<Rightarrow> jsval list \<Rightarrow> world \<Rightarrow> world" where
  "console_error msg args w = w\<lparr>effects := effects w @ [ConsoleError msg args]\<rparr>"

definition alert :: "string \<Rightarrow> world \<Rightarrow> world" where
  "alert msg w = w\<lparr>effects := effects w @ [Alert msg]\<rparr>"

text \<open>Reading a property of \<open>null\<close> or \<open>undefined\<close> throws a \<open>TypeError\<close>.\<close>

definition nullish :: "jsval \<Rightarrow> bool" where
  "nullish v = (v = JUndefined \<or> v = JNull)"

text \<open>
  \<open>data.type\<close>, \<open>data.text\<close>, \<open>data.report\<close>, \<open>data.message\<close> on a value that is not
  nullish: the property of an object (its list holds one entry per own key), and
  \<open>undefined\<close> on an object without the key and on booleans, numbers, strings and arrays.
\<close>

fun property :: "jsval \<Rightarrow> string \<Rightarrow> jsval" where
  "property (JObj kvs) k = (case map_of kvs k of Some v \<Rightarrow> v | None \<Rightarrow> JUndefined)"
| "property _ k = JUndefined"

definition handleTranscriptUpdate :: "jsval \<Rightarrow> world \<Rightarrow> exn + world" where
  "handleTranscriptUpdate data w =
     (if nullish data then Inl TypeError
      else if property data ''type'' = JStr ''partial_transcript'' then
        Inr (w\<lparr>partialTranscript := property data ''text''\<rparr>)
      else if property data ''type'' = JStr ''final_transcript'' then
        Inr (w\<lparr>transcript := property data ''text'', partialTranscript := JStr ''''\<rparr>)
      else if property data ''type'' = JStr ''insight_report'' then
        Inr (w\<lparr>insightReport := property data ''report'', isRecording_App := False\<rparr>)
      else if property data ''type'' = JStr ''status_update'' then
        Inr (console_log ''Status update:'' [property data ''message''] w)
      else if property data ''type'' = JStr ''error'' then
        Inr ((console_error ''WebSocket error:'' [property data ''message''] w)
               \<lparr>isRecording_App := False\<rparr>)
      else Inr w)"

definition handleRecordingStateChange :: "bool \<Rightarrow> world \<Rightarrow> world" where
  "handleRecordingStateChange recording w = w\<lparr>isRecording_App := recording\<rparr>"

definition handleConnectionStatusChange :: "conn_status \<Rightarrow> world \<Rightarrow> world" where
  "handleConnectionStatusChange status w = w\<lparr>connectionStatus := status\<rparr>"

section \<open>AudioStreamer: the browser's part\<close>

text \<open>
  What the browser does to its own objects when the component calls them. \<open>ws_send\<close>
  records the frame given to \<open>ws.send\<close>; \<open>ws.close()\<close> moves a socket that is not yet
  closing to \<open>CLOSING\<close>; \<open>recorder.start(100)\<close> starts the recorder and
  \<open>recorder.stop()\<close> makes it inactive at once and leaves the last \<open>dataavailable\<close> and
  the \<open>stop\<close> event to a later task; \<open>track.stop()\<close> on every track ends the stream.
\<close>

definition update_socket :: "nat \<Rightarrow> (socket \<Rightarrow> socket) \<Rightarrow> world \<Rightarrow> world" where
  "update_socket k f w = w\<lparr>sockets := (sockets w)[k := f (sockets w ! k)]\<rparr>"

definition update_recorder :: "nat \<Rightarrow> (recorder \<Rightarrow> recorder) \<Rightarrow> world \<Rightarrow> world" where
  "update_recorder r f w = w\<lparr>recorders := (recorders w)[r := f (recorders w ! r)]\<rparr>"

definition ws_send :: "nat \<Rightarrow> frame \<Rightarrow> world \<Rightarrow> world" where
  "ws_send k fr w = update_socket k (\<lambda>s. s\<lparr>sent := sent s @ [fr]\<rparr>) w"

definition ws_close :: "nat \<Rightarrow> world \<Rightarrow> world" where
  "ws_close k w =
     update_socket k
       (\<lambda>s. if readyState s = CLOSING \<or> readyState s = CLOSED then s
            else s\<lparr>readyState := CLOSING\<rparr>) w"

definition recorder_start :: "nat \<Rightarrow> world \<Rightarrow> world" where
  "recorder_start r w = update_recorder r (\<lambda>m. m\<lparr>rec_state := Recording\<rparr>) w"

definition recorder_stop :: "nat \<Rightarrow> world \<Rightarrow> world" where
  "recorder_stop r w =
     update_recorder r (\<lambda>m. m\<lparr>rec_state := Inactive, flush_pending := True\<rparr>) w"

definition stop_tracks :: "nat \<Rightarrow> world \<Rightarrow> world" where
  "stop_tracks sid w = w\<lparr>streams := (streams w)[sid := False]\<rparr>"

text \<open>
  \<open>ws.readyState === WebSocket.OPEN\<close> for the socket with index \<open>k\<close>. The component only
  holds indices of sockets it has created; an index outside the list reads as not open.
\<close>

definition is_open :: "world \<Rightarrow> nat \<Rightarrow> bool" where
  "is_open w k = (k < length (sockets w) \<and> readyState (sockets w ! k) = OPEN)"

text \<open>\<open>s.split(',')\<close> and the element \<open>[i]\<close> of the result (\<open>undefined\<close> is \<open>None\<close>).\<close>

fun split_on :: "char \<Rightarrow> string \<Rightarrow> string list" where
  "split_on c [] = [[]]"
| "split_on c (x # xs) =
     (if x = c then [] # split_on c xs
      else (case split_on c xs of [] \<Rightarrow> [[x]] | y # ys \<Rightarrow> (x # y) # ys))"

definition element :: "'a list \<Rightarrow> nat \<Rightarrow> 'a option" where
  "element xs i = (if i < length xs then Some (xs ! i) else None)"

section \<open>AudioStreamer: the component\<close>

text \<open>
  The executor of the promise in \<open>connectWebSocket\<close>. When \<open>new WebSocket\<close> throws,
  the executor ends there: the promise is rejected at once, no handler is set and
  \<open>websocketRef\<close> keeps its value.
\<close>

definition connectWebSocket :: "world \<Rightarrow> world" where
  "connectWebSocket w =
     (let w1 = w\<lparr>isConnecting := True\<rparr>;
          w2 = handleConnectionStatusChange Connecting w1
      in if \<not> url_accepted w2 then w2
         else
           (let ws = length (sockets w2);
                w3 = w2\<lparr>sockets := sockets w2 @
                       [\<lparr>readyState = CONNECTING, sent = [], opened = Pending,
                         started = Pending\<rparr>]\<rparr>
            in w3\<lparr>websocketRef := Some ws\<rparr>))"

text \<open>The \<open>catch\<close> block of \<open>startRecording\<close>; after it the function returns normally.\<close>

definition startRecording_catch :: "world \<Rightarrow> world" where
  "startRecording_catch w =
     (let w1 = console_error ''Error starting recording:'' [] w;
          w2 = w1\<lparr>isConnecting := False\<rparr>;
          w3 = handleConnectionStatusChange Disconnected w2
      in alert ''Error accessing microphone. Please check permissions.'' w3)"

text \<open>The call of \<open>startRecording\<close> that created socket \<open>k\<close> returns: its promise is fulfilled.\<close>

definition start_returns :: "nat \<Rightarrow> world \<Rightarrow> world" where
  "start_returns k w = update_socket k (\<lambda>s. s\<lparr>started := Fulfilled\<rparr>) w"

text \<open>
  \<open>startRecording\<close> up to its first \<open>await\<close>: the call of \<open>connectWebSocket\<close>. With a
  socket created, the rest of the function runs when the promise it waits for is settled.
  When the constructor threw, the promise is already rejected, the \<open>catch\<close> block runs
  and the function returns.
\<close>

definition startRecording :: "world \<Rightarrow> world" where
  "startRecording w =
     (let w1 = connectWebSocket w
      in if url_accepted w then w1
         else (let w2 = startRecording_catch w1
               in w2\<lparr>socketless_calls := socketless_calls w2 @ [Fulfilled]\<rparr>))"

text \<open>
  \<open>ws.onopen\<close>. \<open>resolve(ws)\<close> settles the promise if it is still pending, and
  \<open>startRecording\<close> goes on to call \<open>getUserMedia\<close> and waits again: the call is waiting
  for the microphone exactly when \<open>opened\<close> is fulfilled and \<open>started\<close> is pending.
\<close>

definition ws_onopen :: "nat \<Rightarrow> world \<Rightarrow> world" where
  "ws_onopen k w =
     (let w1 = console_log ''WebSocket connected'' [] w;
          w2 = w1\<lparr>isConnecting := False\<rparr>;
          w3 = handleConnectionStatusChange Connected w2
      in if opened (sockets w3 ! k) = Pending
         then update_socket k (\<lambda>s. s\<lparr>opened := Fulfilled\<rparr>) w3
         else w3)"

definition awaiting_media :: "world \<Rightarrow> nat \<Rightarrow> bool" where
  "awaiting_media w k =
     (k < length (sockets w) \<and> opened (sockets w ! k) = Fulfilled
        \<and> started (sockets w ! k) = Pending)"

text \<open>\<open>ws.onmessage\<close>: whatever is thrown inside the \<open>try\<close> is caught and logged.\<close>

definition ws_onmessage :: "inbound \<Rightarrow> world \<Rightarrow> world" where
  "ws_onmessage fr w =
     (case fr of
        Unparsable \<Rightarrow> console_error ''Error parsing WebSocket message:'' [] w
      | Parsed data \<Rightarrow>
          (case handleTranscriptUpdate data w of
             Inl e \<Rightarrow> console_error ''Error parsing WebSocket message:'' [] w
           | Inr w' \<Rightarrow> w'))"

definition ws_onclose :: "nat \<Rightarrow> world \<Rightarrow> world" where
  "ws_onclose k w =
     (let w1 = console_log ''WebSocket disconnected'' [] w;
          w2 = w1\<lparr>isConnecting := False\<rparr>;
          w3 = handleConnectionStatusChange Disconnected w2
      in w3\<lparr>websocketRef := None\<rparr>)"

text \<open>
  \<open>ws.onerror\<close>. \<open>reject(error)\<close> settles the promise if it is still pending, and then
  the \<open>catch\<close> block of the waiting \<open>startRecording\<close> runs.
\<close>

definition ws_onerror :: "nat \<Rightarrow> world \<Rightarrow> world" where
  "ws_onerror k w =
     (let w1 = console_error ''WebSocket error:'' [] w;
          w2 = w1\<lparr>isConnecting := False\<rparr>;
          w3 = handleConnectionStatusChange Disconnected w2
      in if opened (sockets w3 ! k) = Pending
         then start_returns k
                (startRecording_catch (update_socket k (\<lambda>s. s\<lparr>opened := Rejected\<rparr>) w3))
         else w3)"

text \<open>
  \<open>startRecording\<close> after \<open>getUserMedia\<close> has resolved with a new stream, for the call
  that created socket \<open>k\<close>. \<open>supported\<close> says whether the browser accepts the requested
  \<open>mimeType\<close>; if not, \<open>new MediaRecorder\<close> throws and the \<open>catch\<close> block runs.
\<close>

definition startRecording_granted :: "nat \<Rightarrow> bool \<Rightarrow> world \<Rightarrow> world" where
  "startRecording_granted k supported w =
     (let sid = length (streams w);
          w1 = w\<lparr>streams := streams w @ [True]\<rparr>
      in if \<not> supported then start_returns k (startRecording_catch w1)
         else
           (let r = length (recorders w1);
                w2 = w1\<lparr>recorders := recorders w1 @
                       [\<lparr>rec_state = Inactive, rec_stream = sid, rec_ws = k,
                         flush_pending = False\<rparr>]\<rparr>;
                w3 = w2\<lparr>audioChunksRef := []\<rparr>;
                w4 = recorder_start r w3;
                w5 = w4\<lparr>mediaRecorderRef := Some r\<rparr>;
                w6 = w5\<lparr>isRecording := True\<rparr>;
                w7 = handleRecordingStateChange True w6
            in start_returns k w7))"

text \<open>\<open>recorder.ondataavailable\<close> of recorder \<open>r\<close>: an empty chunk is skipped.\<close>

definition recorder_ondataavailable :: "nat \<Rightarrow> blob \<Rightarrow> world \<Rightarrow> world" where
  "recorder_ondataavailable r b w =
     (if blob_size b > 0 then
        (let w1 = w\<lparr>audioChunksRef := audioChunksRef w @ [b]\<rparr>
         in w1\<lparr>readers := readers w1 @
                  [\<lparr>rd_blob = b, rd_ws = rec_ws (recorders w1 ! r), rd_done = False\<rparr>]\<rparr>)
      else w)"

text \<open>
  \<open>reader.onloadend\<close> of reader \<open>i\<close>; \<open>result\<close> is \<open>reader.result\<close>, \<open>null\<close> (\<open>None\<close>)
  when the read failed, and then \<open>split\<close> throws.
\<close>

definition reader_onloadend :: "nat \<Rightarrow> string option \<Rightarrow> world \<Rightarrow> exn + world" where
  "reader_onloadend i result w =
     (case result of
        None \<Rightarrow> Inl TypeError
      | Some url \<Rightarrow>
          (let base64Audio = element (split_on CHR '','' url) 1;
               ws = rd_ws (readers w ! i)
           in if is_open w ws then Inr (ws_send ws (AudioFrame base64Audio) w) else Inr w))"

definition recorder_onstop :: "nat \<Rightarrow> world \<Rightarrow> world" where
  "recorder_onstop r w = stop_tracks (rec_stream (recorders w ! r)) w"

definition recorder_active :: "world \<Rightarrow> nat \<Rightarrow> bool" where
  "recorder_active w r = (r < length (recorders w) \<and> rec_state (recorders w ! r) \<noteq> Inactive)"

definition stopRecording :: "world \<Rightarrow> world" where
  "stopRecording w =
     (let w1 = (case mediaRecorderRef w of
                  Some r \<Rightarrow> if recorder_active w r then recorder_stop r w else w
                | None \<Rightarrow> w);
          w2 = (case websocketRef w1 of
                  Some k \<Rightarrow> if is_open w1 k then ws_send k StopFrame w1 else w1
                | None \<Rightarrow> w1);
          w3 = w2\<lparr>isRecording := False\<rparr>
      in handleRecordingStateChange False w3)"

definition handleToggleRecording :: "world \<Rightarrow> world" where
  "handleToggleRecording w = (if isRecording w then stopRecording w else startRecording w)"

text \<open>The cleanup of the effect, run when the component is unmounted.\<close>

definition cleanup :: "world \<Rightarrow> world" where
  "cleanup w =
     (let w1 = (case websocketRef w of Some k \<Rightarrow> ws_close k w | None \<Rightarrow> w)
      in (case mediaRecorderRef w1 of
            Some r \<Rightarrow> if recorder_active w1 r then recorder_stop r w1 else w1
          | None \<Rightarrow> w1))"

section \<open>Events\<close>

text \<open>
  Everything happens in tasks of one event loop, one at a time. An event is a call by the
  host (\<open>Start\<close>, \<open>Stop\<close>, a click on the button) or a task the browser runs for one of
  the objects: a socket opens, delivers a message, or closes (after a failure the browser
  first fires \<open>error\<close>, then \<open>close\<close>, with \<open>readyState\<close> already \<open>CLOSED\<close>);
  \<open>getUserMedia\<close> resolves or rejects; a recorder delivers a chunk, or delivers its last
  chunk and stops; a reader finishes. The browser delivers an event only to an object in
  the matching state; any other event leaves the world as it is. The button is not there
  while \<open>isConnecting\<close> holds. \<open>Start\<close> runs \<open>startRecording\<close> to its first
  \<open>await\<close>, or to its end when \<open>new WebSocket\<close> throws.
\<close>

datatype event =
    Start
  | Stop
  | Toggle
  | WsOpened nat
  | WsMessage nat inbound
  | WsClosed nat bool
  | MediaGranted nat bool
  | MediaDenied nat
  | DataAvailable nat blob
  | RecorderStopped nat blob
  | ReaderLoadEnd nat bool
  | Unmount

fun step :: "event \<Rightarrow> world \<Rightarrow> world" where
  "step Start w = startRecording w"
| "step Stop w = stopRecording w"
| "step Toggle w = (if isConnecting w then w else handleToggleRecording w)"
| "step (WsOpened k) w =
     (if k < length (sockets w) \<and> readyState (sockets w ! k) = CONNECTING
      then ws_onopen k (update_socket k (\<lambda>s. s\<lparr>readyState := OPEN\<rparr>) w)
      else w)"
| "step (WsMessage k fr) w = (if is_open w k then ws_onmessage fr w else w)"
| "step (WsClosed k failed) w =
     (if k < length (sockets w) \<and> readyState (sockets w ! k) \<noteq> CLOSED
      then (let w1 = update_socket k (\<lambda>s. s\<lparr>readyState := CLOSED\<rparr>) w;
                w2 = (if failed then ws_onerror k w1 else w1)
            in ws_onclose k w2)
      else w)"
| "step (MediaGranted k supported) w =
     (if awaiting_media w k then startRecording_granted k supported w else w)"
| "step (MediaDenied k) w =
     (if awaiting_media w k then start_returns k (startRecording_catch w) else w)"
| "step (DataAvailable r b) w =
     (if r < length (recorders w) \<and> rec_state (recorders w ! r) = Recording
      then recorder_ondataavailable r b w
      else w)"
| "step (RecorderStopped r b) w =
     (if r < length (recorders w) \<and> flush_pending (recorders w ! r)
      then recorder_onstop r
             (recorder_ondataavailable r b
                (update_recorder r (\<lambda>m. m\<lparr>flush_pending := False\<rparr>) w))
      else w)"
| "step (ReaderLoadEnd i ok) w =
     (if i < length (readers w) \<and> \<not> rd_done (readers w ! i)
      then (let w1 = w\<lparr>readers := (readers w)[i := (readers w ! i)\<lparr>rd_done := True\<rparr>]\<rparr>;
                result = (if ok then Some (blob_dataURL (rd_blob (readers w ! i))) else None)
            in (case reader_onloadend i result w1 of Inl e \<Rightarrow> w1 | Inr w2 \<Rightarrow> w2))
      else w)"
| "step Unmount w = cleanup w"

text \<open>A run: the events of a list, one after the other.\<close>

fun run :: "event list \<Rightarrow> world \<Rightarrow> world" where
  "run [] w = w"
| "run (e # es) w = run es (step e w)"

section \<open>Scenarios\<close>

text \<open>
  A fresh component on which \<open>startRecording\<close> has succeeded: the socket has opened and
  the microphone was granted.
\<close>

definition recording_session :: world where
  "recording_session = run [Start, WsOpened 0, MediaGranted 0 True] init"

text \<open>The five values of \<open>data.type\<close> that \<open>handleTranscriptUpdate\<close> tests for.\<close>

definition known_kinds :: "jsval set" where
  "known_kinds =
     {JStr ''partial_transcript'', JStr ''final_transcript'', JStr ''insight_report'',
      JStr ''status_update'', JStr ''error''}"

text \<open>The frame \<open>reader.onloadend\<close> hands to \<open>ws.send\<close> for a chunk that was read.\<close>

definition audio_frame_of :: "blob \<Rightarrow> frame" where
  "audio_frame_of b = AudioFrame (element (split_on CHR '','' (blob_dataURL b)) 1)"

text \<open>
  Chunks \<open>bs\<close> delivered by recorder \<open>r\<close> one after the other, each read to the end
  before the next one arrives; \<open>n\<close> is the index of the first reader.
\<close>

fun buffer_events :: "nat \<Rightarrow> nat \<Rightarrow> blob list \<Rightarrow> event list" where
  "buffer_events r n [] = []"
| "buffer_events r n (b # bs) =
     DataAvailable r b # ReaderLoadEnd n True # buffer_events r (Suc n) bs"

text \<open>Recorder \<open>r\<close> is recording and the socket \<open>k\<close> its handlers close over is open.\<close>

definition streaming :: "world \<Rightarrow> nat \<Rightarrow> nat \<Rightarrow> bool" where
  "streaming w r k =
     (r < length (recorders w) \<and> rec_state (recorders w ! r) = Recording
        \<and> rec_ws (recorders w ! r) = k \<and> is_open w k)"

text \<open>A chunk whose data URL carries the base64 text \<open>s\<close>.\<close>

definition chunk :: "string \<Rightarrow> blob" where
  "chunk s =
     \<lparr>blob_size = length s, blob_dataURL = ''data:audio/webm;codecs=opus;base64,'' @ s\<rparr>"

text \<open>A recording whose socket closes while one chunk is still being read.\<close>

definition closed_while_reading :: world where
  "closed_while_reading =
     run [Start, WsOpened 0, MediaGranted 0 True, DataAvailable 0 (chunk ''QQ==''),
          WsClosed 0 False] init"

section \<open>Auxiliary facts\<close>

lemmas component_defs =
  startRecording_def connectWebSocket_def handleConnectionStatusChange_def
  handleRecordingStateChange_def ws_onopen_def ws_onclose_def ws_onerror_def ws_onmessage_def
  startRecording_catch_def start_returns_def startRecording_granted_def recorder_ondataavailable_def
  reader_onloadend_def recorder_onstop_def stopRecording_def handleToggleRecording_def
  cleanup_def console_log_def console_error_def alert_def update_socket_def
  update_recorder_def ws_send_def ws_close_def recorder_start_def recorder_stop_def
  stop_tracks_def is_open_def awaiting_media_def recorder_active_def

lemma nth_list_update_if:
  "xs[i := x] ! j = (if i = j \<and> j < length xs then x else xs ! j)"
  by (cases "i = j") (simp_all add: list_update_beyond not_less)

lemma run_append: "run (xs @ ys) w = run ys (run xs w)"
  by (induction xs arbitrary: w) simp_all

subsection \<open>Sending only happens on an open socket\<close>

lemma no_send_step:
  assumes "k < length (sockets w)" and "readyState (sockets w ! k) \<noteq> OPEN"
  shows "sent (sockets (step e w) ! k) = sent (sockets w ! k)"
proof (cases e)
  case (WsMessage j fr)
  then show ?thesis using assms
    by (auto simp add: component_defs handleTranscriptUpdate_def Let_def
        split: inbound.splits sum.splits if_splits)
qed (use assms in \<open>auto simp add: component_defs Let_def nth_list_update_if nth_append
       split: option.splits\<close>)

lemma length_sockets_step: "length (sockets w) \<le> length (sockets (step e w))"
proof (cases e)
  case (WsMessage j fr)
  then show ?thesis
    by (auto simp add: component_defs handleTranscriptUpdate_def Let_def
        split: inbound.splits sum.splits if_splits)
qed (auto simp add: component_defs Let_def split: option.splits)

lemma closing_stays:
  assumes "k < length (sockets w)"
    and "readyState (sockets w ! k) = CLOSING \<or> readyState (sockets w ! k) = CLOSED"
  shows "readyState (sockets (step e w) ! k) = CLOSING
         \<or> readyState (sockets (step e w) ! k) = CLOSED"
proof (cases e)
  case (WsMessage j fr)
  then show ?thesis using assms
    by (auto simp add: component_defs handleTranscriptUpdate_def Let_def
        split: inbound.splits sum.splits if_splits)
qed (use assms in \<open>auto simp add: component_defs Let_def nth_list_update_if nth_append
       split: option.splits\<close>)

lemma closed_socket_silent:
  assumes "k < length (sockets w)"
    and "readyState (sockets w ! k) = CLOSING \<or> readyState (sockets w ! k) = CLOSED"
  shows "sent (sockets (run es w) ! k) = sent (sockets w ! k)"
  using assms
proof (induction es arbitrary: w)
  case Nil
  then show ?case by simp
next
  case (Cons e es)
  have len: "k < length (sockets (step e w))"
    using Cons.prems(1) length_sockets_step [of w e] by simp
  have st: "readyState (sockets (step e w) ! k) = CLOSING
            \<or> readyState (sockets (step e w) ! k) = CLOSED"
    using closing_stays [OF Cons.prems] .
  have "sent (sockets (run es (step e w)) ! k) = sent (sockets (step e w) ! k)"
    using Cons.IH [OF len st] .
  also have "\<dots> = sent (sockets w ! k)"
    using no_send_step [of k w e] Cons.prems by auto
  finally show ?case by simp
qed

subsection \<open>One call of \<open>stopRecording\<close>\<close>

lemma stop_when_idle:
  assumes "\<not> isRecording w" and "\<not> isRecording_App w"
    and "mediaRecorderRef w = Some r" and "\<not> recorder_active w r"
  shows "stopRecording w =
           (case websocketRef w of
              Some k \<Rightarrow> if is_open w k then ws_send k StopFrame w else w
            | None \<Rightarrow> w)"
  using assms
  by (cases w)
     (simp add: stopRecording_def handleRecordingStateChange_def ws_send_def update_socket_def
       is_open_def Let_def split: option.split)

lemma stopRecording_frame:
  "mediaRecorderRef (stopRecording w) = mediaRecorderRef w"
  "websocketRef (stopRecording w) = websocketRef w"
  "\<not> isRecording (stopRecording w)"
  "\<not> isRecording_App (stopRecording w)"
  "streams (stopRecording w) = streams w"
  "is_open (stopRecording w) k = is_open w k"
  by (cases "mediaRecorderRef w"; cases "websocketRef w";
      simp add: stopRecording_def recorder_stop_def update_recorder_def ws_send_def
        update_socket_def handleRecordingStateChange_def is_open_def recorder_active_def
        Let_def nth_list_update_if)+

lemma recorders_stopRecording:
  "recorders (stopRecording w) =
     (case mediaRecorderRef w of
        Some r \<Rightarrow> if recorder_active w r then recorders (recorder_stop r w) else recorders w
      | None \<Rightarrow> recorders w)"
  by (cases "mediaRecorderRef w"; cases "websocketRef w")
     (simp_all add: stopRecording_def recorder_stop_def update_recorder_def ws_send_def
       update_socket_def handleRecordingStateChange_def is_open_def recorder_active_def Let_def)

lemma stopRecording_inactive:
  "mediaRecorderRef w = Some r \<Longrightarrow> \<not> recorder_active (stopRecording w) r"
  by (simp add: recorder_active_def recorders_stopRecording recorder_stop_def
      update_recorder_def)

lemma stop_sends_last:
  assumes "websocketRef w = Some k" and "is_open w k"
  shows "sent (sockets (stopRecording w) ! k) = sent (sockets w ! k) @ [StopFrame]"
  using assms
  by (cases "mediaRecorderRef w")
     (simp_all add: stopRecording_def recorder_stop_def update_recorder_def ws_send_def
       update_socket_def handleRecordingStateChange_def is_open_def Let_def)

subsection \<open>Chunks that are read before the next one arrives\<close>

lemma one_buffer:
  assumes "streaming w r k" and "0 < blob_size b"
  shows "step (ReaderLoadEnd (length (readers w)) True) (step (DataAvailable r b) w) =
           w\<lparr>audioChunksRef := audioChunksRef w @ [b],
             readers := readers w @ [\<lparr>rd_blob = b, rd_ws = k, rd_done = True\<rparr>],
             sockets := (sockets w)[k := (sockets w ! k)
                           \<lparr>sent := sent (sockets w ! k) @ [audio_frame_of b]\<rparr>]\<rparr>"
  using assms
  by (simp add: streaming_def recorder_ondataavailable_def reader_onloadend_def is_open_def
      ws_send_def update_socket_def audio_frame_of_def Let_def)

lemma buffers_in_order:
  assumes "streaming w r k" and "\<forall>b \<in> set bs. 0 < blob_size b"
  shows "streaming (run (buffer_events r (length (readers w)) bs) w) r k
       \<and> sent (sockets (run (buffer_events r (length (readers w)) bs) w) ! k)
           = sent (sockets w ! k) @ map audio_frame_of bs
       \<and> websocketRef (run (buffer_events r (length (readers w)) bs) w) = websocketRef w
       \<and> mediaRecorderRef (run (buffer_events r (length (readers w)) bs) w)
           = mediaRecorderRef w"
  using assms
proof (induction bs arbitrary: w)
  case Nil
  then show ?case by simp
next
  case (Cons b bs)
  define w1 where
    "w1 = step (ReaderLoadEnd (length (readers w)) True) (step (DataAvailable r b) w)"
  have pos: "0 < blob_size b" and rest: "\<forall>b \<in> set bs. 0 < blob_size b"
    using Cons.prems(2) by simp_all
  have eq: "w1 = w\<lparr>audioChunksRef := audioChunksRef w @ [b],
             readers := readers w @ [\<lparr>rd_blob = b, rd_ws = k, rd_done = True\<rparr>],
             sockets := (sockets w)[k := (sockets w ! k)
                           \<lparr>sent := sent (sockets w ! k) @ [audio_frame_of b]\<rparr>]\<rparr>"
    unfolding w1_def by (rule one_buffer [OF Cons.prems(1) pos])
  have k: "k < length (sockets w)"
    using Cons.prems(1) by (simp add: streaming_def is_open_def)
  have s1: "streaming w1 r k"
    using Cons.prems(1) by (simp add: eq streaming_def is_open_def)
  have len: "Suc (length (readers w)) = length (readers w1)"
    by (simp add: eq)
  have sent1: "sent (sockets w1 ! k) = sent (sockets w ! k) @ [audio_frame_of b]"
    using k by (simp add: eq)
  have refs: "websocketRef w1 = websocketRef w" "mediaRecorderRef w1 = mediaRecorderRef w"
    by (simp_all add: eq)
  have unroll: "run (buffer_events r (length (readers w)) (b # bs)) w
                  = run (buffer_events r (length (readers w1)) bs) w1"
    by (simp only: buffer_events.simps run.simps len w1_def)
  from Cons.IH [OF s1 rest] show ?case
    unfolding unroll by (simp add: sent1 refs)
qed

lemma recording_session_streaming:
  "streaming recording_session 0 0" "websocketRef recording_session = Some 0"
  "readers recording_session = []" "sent (sockets recording_session ! 0) = []"
  unfolding recording_session_def streaming_def is_open_def by code_simp+

text \<open>
  A successful start in any state of the component (with a URL the browser accepts): the
  recorder it creates is recording, the socket it sends on is open and held in
  \<open>websocketRef\<close>, nothing has been sent on that socket, and no reader was added.
\<close>

lemma successful_start_streams:
  assumes "url_accepted w"
  shows "streaming (run [Start, WsOpened (length (sockets w)),
                         MediaGranted (length (sockets w)) True] w)
           (length (recorders w)) (length (sockets w))"
    and "websocketRef (run [Start, WsOpened (length (sockets w)),
                         MediaGranted (length (sockets w)) True] w) = Some (length (sockets w))"
    and "sent (sockets (run [Start, WsOpened (length (sockets w)),
                         MediaGranted (length (sockets w)) True] w) ! length (sockets w)) = []"
    and "readers (run [Start, WsOpened (length (sockets w)),
                         MediaGranted (length (sockets w)) True] w) = readers w"
  using assms by (simp_all add: component_defs streaming_def Let_def nth_append)

text \<open>
  Any number of non-empty chunks, each read before the next arrives, and then
  \<open>stopRecording\<close>, with the recorder's socket open and held in \<open>websocketRef\<close>: one audio
  frame per chunk in the order of the chunks, then the stop frame.
\<close>

lemma session_frames:
  assumes "streaming w r k" and "websocketRef w = Some k"
    and "\<forall>b \<in> set bs. 0 < blob_size b"
  shows "sent (sockets (run (buffer_events r (length (readers w)) bs @ [Stop]) w) ! k)
           = sent (sockets w ! k) @ map audio_frame_of bs @ [StopFrame]"
proof -
  define w1 where "w1 = run (buffer_events r (length (readers w)) bs) w"
  have b: "streaming w1 r k \<and> sent (sockets w1 ! k) = sent (sockets w ! k) @ map audio_frame_of bs
           \<and> websocketRef w1 = Some k"
    unfolding w1_def using buffers_in_order [OF assms(1) assms(3)] assms(2) by simp
  then have "is_open w1 k" and "websocketRef w1 = Some k"
    by (simp_all add: streaming_def)
  then have "sent (sockets (stopRecording w1) ! k) = sent (sockets w1 ! k) @ [StopFrame]"
    using stop_sends_last [of w1 k] by simp
  with b have "sent (sockets (stopRecording w1) ! k)
                 = sent (sockets w ! k) @ map audio_frame_of bs @ [StopFrame]"
    by simp
  moreover have "run (buffer_events r (length (readers w)) bs @ [Stop]) w = stopRecording w1"
    by (simp add: run_append w1_def)
  ultimately show ?thesis by (simp only:)
qed

subsection \<open>Inbound frames and the component's own flag\<close>

text \<open>
  A frame that cannot be parsed, and the frame \<open>null\<close>, carry no \<open>type\<close> at all: the
  exception is caught in \<open>ws.onmessage\<close> and logged, and nothing else changes.
\<close>

lemma frame_without_type_logged:
  "ws_onmessage Unparsable w = console_error ''Error parsing WebSocket message:'' [] w"
  "ws_onmessage (Parsed JNull) w = console_error ''Error parsing WebSocket message:'' [] w"
  by (simp_all add: ws_onmessage_def handleTranscriptUpdate_def nullish_def)

text \<open>
  No inbound frame touches the \<open>isRecording\<close> flag of \<open>AudioStreamer\<close>, its refs, or the
  browser objects: \<open>handleTranscriptUpdate\<close> only writes the state of \<open>App\<close>.
\<close>

lemma inbound_keeps_component:
  "isRecording (ws_onmessage fr w) = isRecording w"
  "websocketRef (ws_onmessage fr w) = websocketRef w"
  "mediaRecorderRef (ws_onmessage fr w) = mediaRecorderRef w"
  "sockets (ws_onmessage fr w) = sockets w"
  "recorders (ws_onmessage fr w) = recorders w"
  "streams (ws_onmessage fr w) = streams w"
  "connectionStatus (ws_onmessage fr w) = connectionStatus w"
  by (cases fr; simp add: ws_onmessage_def handleTranscriptUpdate_def console_error_def
        console_log_def)+

text \<open>The cleanup on unmount closes the socket the component holds.\<close>

lemma cleanup_closes_socket:
  assumes "websocketRef w = Some k" and "k < length (sockets w)"
  shows "readyState (sockets (cleanup w) ! k) = CLOSING
         \<or> readyState (sockets (cleanup w) ! k) = CLOSED"
  using assms
  by (cases "mediaRecorderRef w")
     (simp_all add: cleanup_def ws_close_def update_socket_def recorder_stop_def
       update_recorder_def recorder_active_def Let_def)

section \<open>Disconnects and the recording state\<close>

text \<open>
  C1, as the code has it. When a socket closes (with or without a failure),
  \<open>connectionStatus\<close> becomes \<open>Disconnected\<close> and \<open>websocketRef\<close> is cleared in that
  same task, and the recording state is left exactly as it was: neither \<open>isRecording\<close>
  flag changes, and no recorder or stream is touched. A recording in progress therefore
  stays marked as recording after the disconnect.
\<close>

theorem disconnect_leaves_recording_flags:
  assumes "k < length (sockets w)" and "readyState (sockets w ! k) \<noteq> CLOSED"
  shows "connectionStatus (step (WsClosed k failed) w) = Disconnected
         \<and> readyState (sockets (step (WsClosed k failed) w) ! k) = CLOSED
         \<and> websocketRef (step (WsClosed k failed) w) = None
         \<and> isRecording (step (WsClosed k failed) w) = isRecording w
         \<and> isRecording_App (step (WsClosed k failed) w) = isRecording_App w
         \<and> recorders (step (WsClosed k failed) w) = recorders w
         \<and> streams (step (WsClosed k failed) w) = streams w"
  using assms by (simp add: component_defs Let_def)

theorem disconnect_leaves_recording_flags_witness:
  "connectionStatus (step (WsClosed 0 True) recording_session) = Disconnected
   \<and> isRecording (step (WsClosed 0 True) recording_session) = isRecording recording_session"
proof -
  have a: "0 < length (sockets recording_session)"
    unfolding recording_session_def by code_simp
  have b: "readyState (sockets recording_session ! 0) \<noteq> CLOSED"
    unfolding recording_session_def by code_simp
  show ?thesis using disconnect_leaves_recording_flags [OF a b, of True] by simp
qed

text \<open>
  The stronger reading of C1, that recording is false once the connection is gone, fails:
  in a running session both flags are true and the status is connected; after the socket
  closes the status is disconnected, both flags are still true and the recorder still records.
\<close>

theorem recording_survives_disconnect:
  "isRecording recording_session \<and> isRecording_App recording_session
   \<and> connectionStatus recording_session = Connected
   \<and> isRecording (step (WsClosed 0 False) recording_session)
   \<and> isRecording_App (step (WsClosed 0 False) recording_session)
   \<and> connectionStatus (step (WsClosed 0 False) recording_session) = Disconnected
   \<and> rec_state (recorders (step (WsClosed 0 False) recording_session) ! 0) = Recording"
  unfolding recording_session_def by code_simp

section \<open>Stopping twice\<close>

text \<open>
  C2, as the code has it. With a recording in progress, the first \<open>stopRecording\<close> makes
  the recorder inactive; the stream's tracks are still live when the call returns and are
  stopped when the recorder's \<open>stop\<close> event is delivered. The second call changes nothing
  but the socket: it hands one more stop frame to it if the component still holds a socket
  and that socket is open.
\<close>

theorem second_stop_resends_stop:
  assumes "mediaRecorderRef w = Some r" and "recorder_active w r"
  shows "rec_state (recorders (stopRecording w) ! r) = Inactive
       \<and> streams (stopRecording w) = streams w
       \<and> streams (step (RecorderStopped r b) (stopRecording w))
            = (streams w)[rec_stream (recorders w ! r) := False]
       \<and> stopRecording (stopRecording w) =
           (case websocketRef w of
              Some k \<Rightarrow> if is_open w k then ws_send k StopFrame (stopRecording w)
                        else stopRecording w
            | None \<Rightarrow> stopRecording w)"
proof -
  have r: "r < length (recorders w)"
    using assms(2) by (simp add: recorder_active_def)
  have recs: "recorders (stopRecording w) =
      (recorders w)[r := (recorders w ! r)\<lparr>rec_state := Inactive, flush_pending := True\<rparr>]"
    using assms by (simp add: recorders_stopRecording recorder_stop_def update_recorder_def)
  have one: "rec_state (recorders (stopRecording w) ! r) = Inactive"
    using r by (simp add: recs)
  have two: "streams (stopRecording w) = streams w"
    by (rule stopRecording_frame)
  have three: "streams (step (RecorderStopped r b) (stopRecording w))
            = (streams w)[rec_stream (recorders w ! r) := False]"
    using r
    by (simp add: recs two recorder_onstop_def recorder_ondataavailable_def stop_tracks_def
        update_recorder_def)
  have four: "stopRecording (stopRecording w) =
           (case websocketRef w of
              Some k \<Rightarrow> if is_open w k then ws_send k StopFrame (stopRecording w)
                        else stopRecording w
            | None \<Rightarrow> stopRecording w)"
    using stop_when_idle [of "stopRecording w" r] assms(1)
    by (simp add: stopRecording_frame stopRecording_inactive split: option.split)
  show ?thesis using one two three four by blast
qed

theorem second_stop_resends_stop_witness:
  "rec_state (recorders (stopRecording recording_session) ! 0) = Inactive
   \<and> streams (stopRecording recording_session) = [True]
   \<and> streams (step (RecorderStopped 0 (chunk ''''))
         (stopRecording recording_session)) = [False]"
proof -
  have a: "mediaRecorderRef recording_session = Some 0"
    unfolding recording_session_def by code_simp
  have b: "recorder_active recording_session 0"
    unfolding recording_session_def by code_simp
  have c: "streams recording_session = [True]"
    unfolding recording_session_def by code_simp
  have d: "rec_stream (recorders recording_session ! 0) = 0"
    unfolding recording_session_def by code_simp
  show ?thesis
    using second_stop_resends_stop [OF a b, of "chunk ''''"] by (simp add: c d)
qed

text \<open>
  C2 as first stated, at most one stop frame for two calls, fails: after a successful start
  the socket stays open across \<open>stopRecording\<close>, and two calls in a row send two stop frames.
\<close>

theorem double_stop_sends_two:
  "sent (sockets (run [Start, WsOpened 0, MediaGranted 0 True, Stop, Stop] init) ! 0)
     = [StopFrame, StopFrame]"
  by code_simp

section \<open>Failures while starting\<close>

text \<open>
  C3. The socket opens and then \<open>getUserMedia\<close> rejects. The \<open>catch\<close> block reports
  \<open>Disconnected\<close> and \<open>startRecording\<close> returns, but nothing closes the socket: it is
  still open and still held in \<open>websocketRef\<close>.
\<close>

theorem capture_failure_leaves_channel_open:
  "readyState (sockets (run [Start, WsOpened 0, MediaDenied 0] init) ! 0) = OPEN
   \<and> websocketRef (run [Start, WsOpened 0, MediaDenied 0] init) = Some 0
   \<and> connectionStatus (run [Start, WsOpened 0, MediaDenied 0] init) = Disconnected
   \<and> started (sockets (run [Start, WsOpened 0, MediaDenied 0] init) ! 0) = Fulfilled"
  by code_simp

text \<open>
  C4, as the code has it. The promise of \<open>connectWebSocket\<close> is rejected in two ways.
  When a socket fails while it is still connecting, \<open>ws.onerror\<close> logs and rejects, the
  \<open>catch\<close> block of the waiting \<open>startRecording\<close> logs and alerts, and \<open>ws.onclose\<close>
  logs. When \<open>new WebSocket\<close> throws, no socket is created and the \<open>catch\<close> block logs
  and alerts at once. Either way the promise returned by \<open>startRecording\<close> is fulfilled,
  the reaction creates no stream and no recorder, no call is left waiting for the
  microphone, and \<open>connectionStatus\<close> is \<open>Disconnected\<close>. The first part below is the
  failure of a connecting socket at any point of a run, the second the failure right after
  the call (nothing was created since the call), the third the throwing constructor.
\<close>

theorem open_failure_fulfils_start:
  "(k < length (sockets w) \<and> readyState (sockets w ! k) = CONNECTING
      \<and> opened (sockets w ! k) = Pending \<longrightarrow>
      started (sockets (step (WsClosed k True) w) ! k) = Fulfilled
      \<and> opened (sockets (step (WsClosed k True) w) ! k) = Rejected
      \<and> readyState (sockets (step (WsClosed k True) w) ! k) = CLOSED
      \<and> connectionStatus (step (WsClosed k True) w) = Disconnected
      \<and> streams (step (WsClosed k True) w) = streams w
      \<and> recorders (step (WsClosed k True) w) = recorders w
      \<and> \<not> awaiting_media (step (WsClosed k True) w) k
      \<and> effects (step (WsClosed k True) w)
          = effects w @
            [ConsoleError ''WebSocket error:'' [],
             ConsoleError ''Error starting recording:'' [],
             Alert ''Error accessing microphone. Please check permissions.'',
             ConsoleLog ''WebSocket disconnected'' []])
   \<and> (url_accepted w \<longrightarrow>
      started (sockets (step (WsClosed (length (sockets w)) True) (startRecording w))
                 ! length (sockets w)) = Fulfilled
      \<and> opened (sockets (step (WsClosed (length (sockets w)) True) (startRecording w))
                 ! length (sockets w)) = Rejected
      \<and> readyState (sockets (step (WsClosed (length (sockets w)) True) (startRecording w))
                 ! length (sockets w)) = CLOSED
      \<and> connectionStatus (step (WsClosed (length (sockets w)) True) (startRecording w))
          = Disconnected
      \<and> streams (step (WsClosed (length (sockets w)) True) (startRecording w)) = streams w
      \<and> recorders (step (WsClosed (length (sockets w)) True) (startRecording w)) = recorders w
      \<and> \<not> awaiting_media (step (WsClosed (length (sockets w)) True) (startRecording w))
            (length (sockets w))
      \<and> effects (step (WsClosed (length (sockets w)) True) (startRecording w))
          = effects w @
            [ConsoleError ''WebSocket error:'' [],
             ConsoleError ''Error starting recording:'' [],
             Alert ''Error accessing microphone. Please check permissions.'',
             ConsoleLog ''WebSocket disconnected'' []])
   \<and> (\<not> url_accepted w \<longrightarrow>
      socketless_calls (startRecording w) = socketless_calls w @ [Fulfilled]
      \<and> sockets (startRecording w) = sockets w
      \<and> websocketRef (startRecording w) = websocketRef w
      \<and> connectionStatus (startRecording w) = Disconnected
      \<and> streams (startRecording w) = streams w
      \<and> recorders (startRecording w) = recorders w
      \<and> effects (startRecording w)
          = effects w @
            [ConsoleError ''Error starting recording:'' [],
             Alert ''Error accessing microphone. Please check permissions.''])"
proof -
  have later: "started (sockets (step (WsClosed k True) w) ! k) = Fulfilled
      \<and> opened (sockets (step (WsClosed k True) w) ! k) = Rejected
      \<and> readyState (sockets (step (WsClosed k True) w) ! k) = CLOSED
      \<and> connectionStatus (step (WsClosed k True) w) = Disconnected
      \<and> streams (step (WsClosed k True) w) = streams w
      \<and> recorders (step (WsClosed k True) w) = recorders w
      \<and> \<not> awaiting_media (step (WsClosed k True) w) k
      \<and> effects (step (WsClosed k True) w)
          = effects w @
            [ConsoleError ''WebSocket error:'' [],
             ConsoleError ''Error starting recording:'' [],
             Alert ''Error accessing microphone. Please check permissions.'',
             ConsoleLog ''WebSocket disconnected'' []]"
    if "k < length (sockets w)" and "readyState (sockets w ! k) = CONNECTING"
      and "opened (sockets w ! k) = Pending"
    using that by (simp add: component_defs Let_def)
  have direct: "started (sockets (step (WsClosed (length (sockets w)) True) (startRecording w))
                 ! length (sockets w)) = Fulfilled
      \<and> opened (sockets (step (WsClosed (length (sockets w)) True) (startRecording w))
                 ! length (sockets w)) = Rejected
      \<and> readyState (sockets (step (WsClosed (length (sockets w)) True) (startRecording w))
                 ! length (sockets w)) = CLOSED
      \<and> connectionStatus (step (WsClosed (length (sockets w)) True) (startRecording w))
          = Disconnected
      \<and> streams (step (WsClosed (length (sockets w)) True) (startRecording w)) = streams w
      \<and> recorders (step (WsClosed (length (sockets w)) True) (startRecording w)) = recorders w
      \<and> \<not> awaiting_media (step (WsClosed (length (sockets w)) True) (startRecording w))
            (length (sockets w))
      \<and> effects (step (WsClosed (length (sockets w)) True) (startRecording w))
          = effects w @
            [ConsoleError ''WebSocket error:'' [],
             ConsoleError ''Error starting recording:'' [],
             Alert ''Error accessing microphone. Please check permissions.'',
             ConsoleLog ''WebSocket disconnected'' []]"
    if "url_accepted w"
    using that by (simp add: component_defs Let_def)
  have thrown: "socketless_calls (startRecording w) = socketless_calls w @ [Fulfilled]
      \<and> sockets (startRecording w) = sockets w
      \<and> websocketRef (startRecording w) = websocketRef w
      \<and> connectionStatus (startRecording w) = Disconnected
      \<and> streams (startRecording w) = streams w
      \<and> recorders (startRecording w) = recorders w
      \<and> effects (startRecording w)
          = effects w @
            [ConsoleError ''Error starting recording:'' [],
             Alert ''Error accessing microphone. Please check permissions.'']"
    if "\<not> url_accepted w"
    using that by (simp add: component_defs Let_def)
  from later direct thrown show ?thesis by blast
qed

theorem open_failure_fulfils_start_witness:
  "started (sockets (step (WsClosed 0 True) (run [Start, Start] init)) ! 0) = Fulfilled
   \<and> connectionStatus (step (WsClosed 0 True) (run [Start, Start] init)) = Disconnected
   \<and> started (sockets (step (WsClosed 0 True) (startRecording init)) ! 0) = Fulfilled
   \<and> connectionStatus (step (WsClosed 0 True) (startRecording init)) = Disconnected
   \<and> streams (step (WsClosed 0 True) (startRecording init)) = []
   \<and> effects (step (WsClosed 0 True) (startRecording init))
       = [ConsoleError ''WebSocket error:'' [],
          ConsoleError ''Error starting recording:'' [],
          Alert ''Error accessing microphone. Please check permissions.'',
          ConsoleLog ''WebSocket disconnected'' []]
   \<and> socketless_calls (startRecording (init\<lparr>url_accepted := False\<rparr>)) = [Fulfilled]
   \<and> sockets (startRecording (init\<lparr>url_accepted := False\<rparr>)) = []
   \<and> connectionStatus (startRecording (init\<lparr>url_accepted := False\<rparr>)) = Disconnected
   \<and> effects (startRecording (init\<lparr>url_accepted := False\<rparr>))
       = [ConsoleError ''Error starting recording:'' [],
          Alert ''Error accessing microphone. Please check permissions.'']"
proof -
  have y: "url_accepted init" and s: "sockets init = []" and e: "effects init = []"
    and t: "streams init = []"
    by (simp_all add: init_def)
  have n: "\<not> url_accepted (init\<lparr>url_accepted := False\<rparr>)"
    and s': "sockets (init\<lparr>url_accepted := False\<rparr>) = []"
    and e': "effects (init\<lparr>url_accepted := False\<rparr>) = []"
    and c': "socketless_calls (init\<lparr>url_accepted := False\<rparr>) = []"
    by (simp_all add: init_def)
  have l: "0 < length (sockets (run [Start, Start] init))"
    "readyState (sockets (run [Start, Start] init) ! 0) = CONNECTING"
    "opened (sockets (run [Start, Start] init) ! 0) = Pending"
    by code_simp+
  from open_failure_fulfils_start [of 0 "run [Start, Start] init"] l
  have zero: "started (sockets (step (WsClosed 0 True) (run [Start, Start] init)) ! 0) = Fulfilled
      \<and> connectionStatus (step (WsClosed 0 True) (run [Start, Start] init)) = Disconnected"
    by blast
  from open_failure_fulfils_start [of _ init] y
  have one: "started (sockets (step (WsClosed (length (sockets init)) True) (startRecording init))
                 ! length (sockets init)) = Fulfilled
      \<and> connectionStatus (step (WsClosed (length (sockets init)) True) (startRecording init))
          = Disconnected
      \<and> streams (step (WsClosed (length (sockets init)) True) (startRecording init))
          = streams init
      \<and> effects (step (WsClosed (length (sockets init)) True) (startRecording init))
          = effects init @
            [ConsoleError ''WebSocket error:'' [],
             ConsoleError ''Error starting recording:'' [],
             Alert ''Error accessing microphone. Please check permissions.'',
             ConsoleLog ''WebSocket disconnected'' []]"
    by blast
  from open_failure_fulfils_start [of _ "init\<lparr>url_accepted := False\<rparr>"] n
  have two: "socketless_calls (startRecording (init\<lparr>url_accepted := False\<rparr>))
               = socketless_calls (init\<lparr>url_accepted := False\<rparr>) @ [Fulfilled]
      \<and> sockets (startRecording (init\<lparr>url_accepted := False\<rparr>))
          = sockets (init\<lparr>url_accepted := False\<rparr>)
      \<and> connectionStatus (startRecording (init\<lparr>url_accepted := False\<rparr>)) = Disconnected
      \<and> effects (startRecording (init\<lparr>url_accepted := False\<rparr>))
          = effects (init\<lparr>url_accepted := False\<rparr>) @
            [ConsoleError ''Error starting recording:'' [],
             Alert ''Error accessing microphone. Please check permissions.'']"
    by blast
  from zero one two show ?thesis
    by (simp only: s e t s' e' c' list.size append_Nil)
qed

text \<open>
  C4 as first stated, the promise returned by start rejects, fails: when the socket of a
  fresh component fails to open, the promise of \<open>connectWebSocket\<close> is rejected but the one
  \<open>startRecording\<close> returns is fulfilled.
\<close>

theorem start_promise_not_rejected:
  "opened (sockets (run [Start, WsClosed 0 True] init) ! 0) = Rejected
   \<and> started (sockets (run [Start, WsClosed 0 True] init) ! 0) = Fulfilled"
  by code_simp

section \<open>Inbound events\<close>

text \<open>
  C5, as the code has it. An \<open>error\<close> event is logged and sets the \<open>isRecording\<close> flag
  of \<open>App\<close> to false; the connection status, the transcripts, the report, and the whole
  state of the audio component (its own flag, its refs, sockets and recorders) are unchanged.
\<close>

theorem error_event_clears_caller_recording:
  assumes "\<not> nullish data" and "property data ''type'' = JStr ''error''"
  shows "handleTranscriptUpdate data w =
           Inr (w\<lparr>isRecording_App := False,
                  effects := effects w @
                    [ConsoleError ''WebSocket error:'' [property data ''message'']]\<rparr>)"
  using assms by (simp add: handleTranscriptUpdate_def console_error_def)

theorem error_event_clears_caller_recording_witness:
  "handleTranscriptUpdate (JObj [(''type'', JStr ''error''), (''message'', JStr ''overloaded'')])
      (init\<lparr>isRecording_App := True, connectionStatus := Connected\<rparr>)
    = Inr (init\<lparr>isRecording_App := False, connectionStatus := Connected,
                 effects := [ConsoleError ''WebSocket error:'' [JStr ''overloaded'']]\<rparr>)"
  using error_event_clears_caller_recording
    [of "JObj [(''type'', JStr ''error''), (''message'', JStr ''overloaded'')]"
        "init\<lparr>isRecording_App := True, connectionStatus := Connected\<rparr>"]
  by (simp add: nullish_def init_def)

text \<open>
  C5 as first stated, an \<open>error\<close> event changes no state, fails: in a running session the
  \<open>isRecording\<close> flag of \<open>App\<close> is true before the event and false after it.
\<close>

theorem error_event_changes_state:
  "isRecording_App recording_session
   \<and> \<not> isRecording_App
         (step (WsMessage 0
                  (Parsed (JObj [(''type'', JStr ''error''), (''message'', JStr ''overloaded'')])))
            recording_session)"
  unfolding recording_session_def by code_simp

text \<open>
  C8. An inbound frame whose \<open>type\<close> is none of the five known kinds (any other string, a
  value that is not a string, or no \<open>type\<close> key at all) is handled without an exception
  and leaves the whole world as it was: transcripts, report, both recording flags,
  connection status, and the console too.
\<close>

theorem unknown_kind_is_noop:
  assumes "\<not> nullish data" and "property data ''type'' \<notin> known_kinds"
  shows "handleTranscriptUpdate data w = Inr w
         \<and> ws_onmessage (Parsed data) w = w
         \<and> step (WsMessage k (Parsed data)) w = w"
  using assms by (simp add: handleTranscriptUpdate_def ws_onmessage_def known_kinds_def)

theorem unknown_kind_is_noop_witness:
  "handleTranscriptUpdate (JObj [(''type'', JStr ''unknown_kind'')]) recording_session
     = Inr recording_session
   \<and> step (WsMessage 0 (Parsed (JObj [(''type'', JStr ''unknown_kind'')]))) recording_session
     = recording_session"
proof -
  have a: "\<not> nullish (JObj [(''type'', JStr ''unknown_kind'')])"
    by (simp add: nullish_def)
  have b: "property (JObj [(''type'', JStr ''unknown_kind'')]) ''type'' \<notin> known_kinds"
    by (simp add: known_kinds_def)
  show ?thesis using unknown_kind_is_noop [OF a b, of recording_session 0] by blast
qed

text \<open>
  C9, as the code has it. An \<open>insight_report\<close> event stores the report and sets the
  \<open>isRecording\<close> flag of \<open>App\<close>, the Caller's copy of the recording state, to false,
  whatever the state before it and whether or not \<open>stopRecording\<close> was ever called.
  Nothing else changes: the \<open>isRecording\<close> flag of \<open>AudioStreamer\<close>, its recorders
  and its streams are as they were.
\<close>

theorem insight_report_clears_caller_flag:
  assumes "\<not> nullish data" and "property data ''type'' = JStr ''insight_report''"
  shows "handleTranscriptUpdate data w =
           Inr (w\<lparr>insightReport := property data ''report'', isRecording_App := False\<rparr>)
         \<and> ws_onmessage (Parsed data) w =
             w\<lparr>insightReport := property data ''report'', isRecording_App := False\<rparr>
         \<and> \<not> isRecording_App (ws_onmessage (Parsed data) w)
         \<and> isRecording (ws_onmessage (Parsed data) w) = isRecording w
         \<and> recorders (ws_onmessage (Parsed data) w) = recorders w
         \<and> streams (ws_onmessage (Parsed data) w) = streams w"
  using assms by (simp add: handleTranscriptUpdate_def ws_onmessage_def)

theorem insight_report_clears_caller_flag_witness:
  "isRecording_App recording_session
   \<and> \<not> isRecording_App
         (ws_onmessage
            (Parsed (JObj [(''type'', JStr ''insight_report''),
                           (''report'', JObj [(''clinical_summary'', JStr ''stable'')])]))
            recording_session)
   \<and> isRecording
         (ws_onmessage
            (Parsed (JObj [(''type'', JStr ''insight_report''),
                           (''report'', JObj [(''clinical_summary'', JStr ''stable'')])]))
            recording_session)"
proof -
  have a: "\<not> nullish (JObj [(''type'', JStr ''insight_report''),
                           (''report'', JObj [(''clinical_summary'', JStr ''stable'')])])"
    by (simp add: nullish_def)
  have b: "property (JObj [(''type'', JStr ''insight_report''),
                           (''report'', JObj [(''clinical_summary'', JStr ''stable'')])]) ''type''
            = JStr ''insight_report''"
    by simp
  have c: "isRecording_App recording_session"
    unfolding recording_session_def by code_simp
  have d: "isRecording recording_session"
    unfolding recording_session_def by code_simp
  show ?thesis
    using insight_report_clears_caller_flag [OF a b, of recording_session] c d by simp
qed

text \<open>
  C9 as first stated, the recording state is forced to false, fails for the recording
  state that the audio component owns: after an \<open>insight_report\<close> event in a running
  session its \<open>isRecording\<close> flag is still true, the recorder still records, and the next
  chunk is still sent.
\<close>

theorem insight_report_keeps_recording:
  "isRecording
     (step (WsMessage 0
              (Parsed (JObj [(''type'', JStr ''insight_report''),
                             (''report'', JObj [(''clinical_summary'', JStr ''stable'')])])))
        recording_session)
   \<and> rec_state
       (recorders
          (step (WsMessage 0
                   (Parsed (JObj [(''type'', JStr ''insight_report''),
                                  (''report'', JObj [(''clinical_summary'', JStr ''stable'')])])))
             recording_session) ! 0) = Recording
   \<and> sent
       (sockets
          (run [WsMessage 0
                  (Parsed (JObj [(''type'', JStr ''insight_report''),
                                 (''report'', JObj [(''clinical_summary'', JStr ''stable'')])])),
                DataAvailable 0 (chunk ''QQ==''), ReaderLoadEnd 0 True]
             recording_session) ! 0) = [AudioFrame (Some ''QQ=='')]"
  unfolding recording_session_def by code_simp

text \<open>
  C10. A \<open>final_transcript\<close> event replaces the stored final transcript by the event's
  \<open>text\<close> (nothing of the earlier transcript is kept) and resets the partial transcript to
  the empty string in the same reaction; nothing else changes.
\<close>

theorem final_transcript_replaces:
  assumes "\<not> nullish data" and "property data ''type'' = JStr ''final_transcript''"
  shows "handleTranscriptUpdate data w =
           Inr (w\<lparr>transcript := property data ''text'', partialTranscript := JStr ''''\<rparr>)"
  using assms by (simp add: handleTranscriptUpdate_def)

theorem final_transcript_replaces_witness:
  "handleTranscriptUpdate
      (JObj [(''type'', JStr ''final_transcript''), (''text'', JStr ''patient reports headache'')])
      (init\<lparr>transcript := JStr ''earlier words'', partialTranscript := JStr ''patient rep''\<rparr>)
    = Inr (init\<lparr>transcript := JStr ''patient reports headache'', partialTranscript := JStr ''''\<rparr>)"
  using final_transcript_replaces
    [of "JObj [(''type'', JStr ''final_transcript''), (''text'', JStr ''patient reports headache'')]"
        "init\<lparr>transcript := JStr ''earlier words'', partialTranscript := JStr ''patient rep''\<rparr>"]
  by (simp add: nullish_def)

section \<open>Outbound frames\<close>

text \<open>
  C6, as the code has it. A recorder is recording, the socket its frames go to is open,
  and the component still holds that socket in \<open>websocketRef\<close>. Three non-empty chunks
  arrive, each read to the end before the next event, and then \<open>stopRecording\<close> is called,
  with no other event in between. The socket is then handed exactly the three audio frames
  of the chunks, in the order of the chunks, followed by one stop frame. In particular,
  when \<open>startRecording\<close> is called in any state of the component (with a URL the browser
  accepts), its socket opens and the microphone is granted, and these events follow at
  once, those four frames are all that this socket is ever handed up to then.
\<close>

theorem three_buffers_then_stop:
  assumes "0 < blob_size b1" and "0 < blob_size b2" and "0 < blob_size b3"
  shows "(streaming w r k \<and> websocketRef w = Some k \<longrightarrow>
            sent (sockets (run (buffer_events r (length (readers w)) [b1, b2, b3] @ [Stop]) w) ! k)
              = sent (sockets w ! k)
                  @ [audio_frame_of b1, audio_frame_of b2, audio_frame_of b3, StopFrame])
       \<and> (url_accepted w \<longrightarrow>
            sent (sockets
                    (run ([Start, WsOpened (length (sockets w)),
                           MediaGranted (length (sockets w)) True]
                          @ buffer_events (length (recorders w)) (length (readers w)) [b1, b2, b3]
                          @ [Stop]) w)
                  ! length (sockets w))
              = [audio_frame_of b1, audio_frame_of b2, audio_frame_of b3, StopFrame])"
proof -
  have nonempty: "\<forall>b \<in> set [b1, b2, b3]. 0 < blob_size b"
    using assms by simp
  have general: "sent (sockets (run (buffer_events r' (length (readers w')) [b1, b2, b3] @ [Stop]) w')
                         ! k')
                   = sent (sockets w' ! k')
                       @ [audio_frame_of b1, audio_frame_of b2, audio_frame_of b3, StopFrame]"
    if "streaming w' r' k'" and "websocketRef w' = Some k'" for w' r' k'
    using session_frames [OF that nonempty] by (simp only: list.map append_Cons append_Nil)
  have fresh: "sent (sockets
                    (run ([Start, WsOpened (length (sockets w)),
                           MediaGranted (length (sockets w)) True]
                          @ buffer_events (length (recorders w)) (length (readers w)) [b1, b2, b3]
                          @ [Stop]) w)
                  ! length (sockets w))
              = [audio_frame_of b1, audio_frame_of b2, audio_frame_of b3, StopFrame]"
    if u: "url_accepted w"
  proof -
    define w1 where
      "w1 = run [Start, WsOpened (length (sockets w)), MediaGranted (length (sockets w)) True] w"
    have s: "streaming w1 (length (recorders w)) (length (sockets w))"
      and h: "websocketRef w1 = Some (length (sockets w))"
      and e: "sent (sockets w1 ! length (sockets w)) = []"
      and rd: "readers w1 = readers w"
      unfolding w1_def by (rule successful_start_streams [OF u])+
    have "sent (sockets (run (buffer_events (length (recorders w)) (length (readers w1))
                                [b1, b2, b3] @ [Stop]) w1) ! length (sockets w))
            = sent (sockets w1 ! length (sockets w))
                @ [audio_frame_of b1, audio_frame_of b2, audio_frame_of b3, StopFrame]"
      by (rule general [OF s h])
    then have "sent (sockets (run (buffer_events (length (recorders w)) (length (readers w))
                                [b1, b2, b3] @ [Stop]) w1) ! length (sockets w))
            = [audio_frame_of b1, audio_frame_of b2, audio_frame_of b3, StopFrame]"
      by (simp only: e rd append_Nil)
    then show ?thesis
      by (simp only: run_append w1_def)
  qed
  from general fresh show ?thesis by blast
qed

theorem three_buffers_then_stop_witness:
  "sent (sockets (run [Start, WsOpened 0, MediaGranted 0 True,
                       DataAvailable 0 (chunk ''QQ==''), ReaderLoadEnd 0 True,
                       DataAvailable 0 (chunk ''Qg==''), ReaderLoadEnd 1 True,
                       DataAvailable 0 (chunk ''Qw==''), ReaderLoadEnd 2 True,
                       Stop] init) ! 0)
     = [AudioFrame (Some ''QQ==''), AudioFrame (Some ''Qg==''), AudioFrame (Some ''Qw==''),
        StopFrame]
   \<and> sent (sockets (run [DataAvailable 0 (chunk ''QQ==''), ReaderLoadEnd 0 True,
                       DataAvailable 0 (chunk ''Qg==''), ReaderLoadEnd 1 True,
                       DataAvailable 0 (chunk ''Qw==''), ReaderLoadEnd 2 True,
                       Stop] recording_session) ! 0)
     = [AudioFrame (Some ''QQ==''), AudioFrame (Some ''Qg==''), AudioFrame (Some ''Qw==''),
        StopFrame]"
proof -
  have e: "audio_frame_of (chunk ''QQ=='') = AudioFrame (Some ''QQ=='')"
    "audio_frame_of (chunk ''Qg=='') = AudioFrame (Some ''Qg=='')"
    "audio_frame_of (chunk ''Qw=='') = AudioFrame (Some ''Qw=='')"
    by code_simp+
  have p: "0 < blob_size (chunk ''QQ=='')" "0 < blob_size (chunk ''Qg=='')"
    "0 < blob_size (chunk ''Qw=='')"
    by (simp_all add: chunk_def)
  have i: "url_accepted init" "length (sockets init) = 0" "length (recorders init) = 0"
    "length (readers init) = 0"
    by (simp_all add: init_def)
  have ev: "buffer_events 0 0 [chunk ''QQ=='', chunk ''Qg=='', chunk ''Qw==''] @ [Stop]
             = [DataAvailable 0 (chunk ''QQ==''), ReaderLoadEnd 0 True,
                DataAvailable 0 (chunk ''Qg==''), ReaderLoadEnd 1 True,
                DataAvailable 0 (chunk ''Qw==''), ReaderLoadEnd 2 True, Stop]"
    by (simp add: numeral_2_eq_2)
  note t = three_buffers_then_stop [OF p]
  have "sent (sockets
                (run ([Start, WsOpened (length (sockets init)),
                       MediaGranted (length (sockets init)) True]
                      @ buffer_events (length (recorders init)) (length (readers init))
                          [chunk ''QQ=='', chunk ''Qg=='', chunk ''Qw==''] @ [Stop]) init)
              ! length (sockets init))
          = [audio_frame_of (chunk ''QQ==''), audio_frame_of (chunk ''Qg==''),
             audio_frame_of (chunk ''Qw==''), StopFrame]"
    using t [of init] i(1) by blast
  then have one: "sent (sockets (run [Start, WsOpened 0, MediaGranted 0 True,
                       DataAvailable 0 (chunk ''QQ==''), ReaderLoadEnd 0 True,
                       DataAvailable 0 (chunk ''Qg==''), ReaderLoadEnd 1 True,
                       DataAvailable 0 (chunk ''Qw==''), ReaderLoadEnd 2 True,
                       Stop] init) ! 0)
     = [AudioFrame (Some ''QQ==''), AudioFrame (Some ''Qg==''), AudioFrame (Some ''Qw==''),
        StopFrame]"
    by (simp only: i e ev append_Cons append_Nil)
  have "sent (sockets (run (buffer_events 0 (length (readers recording_session))
                              [chunk ''QQ=='', chunk ''Qg=='', chunk ''Qw==''] @ [Stop])
                         recording_session) ! 0)
          = sent (sockets recording_session ! 0)
              @ [audio_frame_of (chunk ''QQ==''), audio_frame_of (chunk ''Qg==''),
                 audio_frame_of (chunk ''Qw==''), StopFrame]"
    using t [of recording_session 0 0] recording_session_streaming(1,2) by blast
  then have two: "sent (sockets (run [DataAvailable 0 (chunk ''QQ==''), ReaderLoadEnd 0 True,
                       DataAvailable 0 (chunk ''Qg==''), ReaderLoadEnd 1 True,
                       DataAvailable 0 (chunk ''Qw==''), ReaderLoadEnd 2 True,
                       Stop] recording_session) ! 0)
     = [AudioFrame (Some ''QQ==''), AudioFrame (Some ''Qg==''), AudioFrame (Some ''Qw==''),
        StopFrame]"
    by (simp only: recording_session_streaming(3,4) list.size e ev append_Nil)
  from one two show ?thesis by blast
qed

text \<open>
  C6 as first stated, for any three chunks, fails in two ways. An empty chunk is skipped by
  \<open>ondataavailable\<close>, so three chunks of which one is empty give two audio frames. And a
  chunk whose read ends only after \<open>stopRecording\<close> is sent after the stop frame.
\<close>

theorem scenario_A_fails_as_stated:
  "sent (sockets (run [Start, WsOpened 0, MediaGranted 0 True,
                       DataAvailable 0 (chunk ''QQ==''), ReaderLoadEnd 0 True,
                       DataAvailable 0 (chunk ''''),
                       DataAvailable 0 (chunk ''Qw==''), ReaderLoadEnd 1 True,
                       Stop] init) ! 0)
     = [AudioFrame (Some ''QQ==''), AudioFrame (Some ''Qw==''), StopFrame]
   \<and> sent (sockets (run [Start, WsOpened 0, MediaGranted 0 True,
                       DataAvailable 0 (chunk ''QQ==''), ReaderLoadEnd 0 True,
                       DataAvailable 0 (chunk ''Qg==''), ReaderLoadEnd 1 True,
                       DataAvailable 0 (chunk ''Qw==''),
                       Stop, ReaderLoadEnd 2 True] init) ! 0)
     = [AudioFrame (Some ''QQ==''), AudioFrame (Some ''Qg==''), StopFrame,
        AudioFrame (Some ''Qw=='')]"
  by code_simp

text \<open>
  C7. The connection status of a channel is the \<open>readyState\<close> of its socket, and
  connected is \<open>OPEN\<close>; this is what both send guards read (the status that \<open>App\<close>
  displays is a separate variable written by the handlers). Whatever the event (a chunk, the end of a read, a call of
  \<open>stopRecording\<close>, or any other), a socket that is not open is handed no frame by it:
  the frame that would have gone to it is dropped. Nothing is kept for later either: once
  the socket is closing or closed, no run of events ever hands it a frame.
\<close>

theorem no_send_unless_open:
  assumes "k < length (sockets w)" and "readyState (sockets w ! k) \<noteq> OPEN"
  shows "sent (sockets (step e w) ! k) = sent (sockets w ! k)
         \<and> (readyState (sockets w ! k) \<noteq> CONNECTING
              \<longrightarrow> sent (sockets (run es w) ! k) = sent (sockets w ! k))"
proof -
  have one: "sent (sockets (step e w) ! k) = sent (sockets w ! k)"
    using assms by (rule no_send_step)
  have two: "sent (sockets (run es w) ! k) = sent (sockets w ! k)"
    if "readyState (sockets w ! k) \<noteq> CONNECTING"
  proof -
    have "readyState (sockets w ! k) = CLOSING \<or> readyState (sockets w ! k) = CLOSED"
      using that assms(2) by (cases "readyState (sockets w ! k)") simp_all
    with assms(1) show ?thesis by (rule closed_socket_silent)
  qed
  show ?thesis using one two by blast
qed

theorem no_send_unless_open_witness:
  "sent (sockets (step (ReaderLoadEnd 0 True) closed_while_reading) ! 0) = []
   \<and> sent (sockets (run [ReaderLoadEnd 0 True, Stop] closed_while_reading) ! 0) = []"
proof -
  have a: "0 < length (sockets closed_while_reading)"
    unfolding closed_while_reading_def by code_simp
  have b: "readyState (sockets closed_while_reading ! 0) \<noteq> OPEN"
    unfolding closed_while_reading_def by code_simp
  have c: "readyState (sockets closed_while_reading ! 0) \<noteq> CONNECTING"
    unfolding closed_while_reading_def by code_simp
  have d: "sent (sockets closed_while_reading ! 0) = []"
    unfolding closed_while_reading_def by code_simp
  note t = no_send_unless_open [OF a b, of "ReaderLoadEnd 0 True" "[ReaderLoadEnd 0 True, Stop]"]
  have one: "sent (sockets (step (ReaderLoadEnd 0 True) closed_while_reading) ! 0)
               = sent (sockets closed_while_reading ! 0)"
    using t by blast
  have two: "sent (sockets (run [ReaderLoadEnd 0 True, Stop] closed_while_reading) ! 0)
               = sent (sockets closed_while_reading ! 0)"
    using t c by blast
  show ?thesis by (simp only: one two d)
qed

end
